theory Spec2Isabelle
  imports Complex_Main
begin

section \<open>Python strings and the built-ins the assistant uses\<close>

text \<open>
  A Python \<open>str\<close> is a sequence of Unicode code points, so it is modelled as a list of
  natural numbers. \<open>lit\<close> turns an ASCII literal into such a string; the few non-ASCII
  characters of the source are written as numbers.
\<close>

type_synonym ustr = "nat list"

definition lit :: "string \<Rightarrow> ustr" where
  "lit s = map of_char s"

text \<open>\<open>str.isspace\<close> on one code point: the characters \<open>str.strip()\<close> removes.\<close>

definition py_isspace :: "nat \<Rightarrow> bool" where
  "py_isspace c =
     ((9 \<le> c \<and> c \<le> 13) \<or> (28 \<le> c \<and> c \<le> 32) \<or> c = 133 \<or> c = 160 \<or> c = 5760 \<or>
      (8192 \<le> c \<and> c \<le> 8202) \<or> c = 8232 \<or> c = 8233 \<or> c = 8239 \<or> c = 8287 \<or>
      c = 12288)"

definition py_strip :: "ustr \<Rightarrow> ustr" where
  "py_strip s = rev (dropWhile py_isspace (rev (dropWhile py_isspace s)))"

text \<open>The line boundaries of \<open>str.splitlines()\<close>; \<open>\r\n\<close> counts as one boundary.\<close>

definition py_linebreak :: "nat \<Rightarrow> bool" where
  "py_linebreak c =
     ((10 \<le> c \<and> c \<le> 13) \<or> (28 \<le> c \<and> c \<le> 30) \<or> c = 133 \<or> c = 8232 \<or> c = 8233)"

fun splitlines_from :: "ustr \<Rightarrow> ustr \<Rightarrow> ustr list" where
  "splitlines_from cur [] = (if cur = [] then [] else [cur])"
| "splitlines_from cur [c] = (if py_linebreak c then [cur] else [cur @ [c]])"
| "splitlines_from cur (c # d # cs) =
     (if c = 13 \<and> d = 10 then cur # splitlines_from [] cs
      else if py_linebreak c then cur # splitlines_from [] (d # cs)
      else splitlines_from (cur @ [c]) (d # cs))"

definition py_splitlines :: "ustr \<Rightarrow> ustr list" where
  "py_splitlines s = splitlines_from [] s"

text \<open>\<open>" ".join(xs)\<close> and \<open>s.startswith(p)\<close>.\<close>

fun py_join :: "ustr list \<Rightarrow> ustr" where
  "py_join [] = []"
| "py_join [x] = x"
| "py_join (x # y # ys) = x @ [32] @ py_join (y # ys)"

definition py_startswith :: "ustr \<Rightarrow> ustr \<Rightarrow> bool" where
  "py_startswith s p = (take (length p) s = p)"

section \<open>Configuration values\<close>

text \<open>
  What \<open>yaml.safe_load\<close> returns. \<open>YOther\<close> stands for the remaining scalars (bytes,
  dates, timestamps, non-finite floats): its truth value, and a number that tells its
  value, so that two of them are equal exactly when they are the same term. The program
  tests such a value for truth, compares it, uses it as a key and passes it on, nothing
  else. A mapping is the list of its items; a key is any scalar.
\<close>

datatype yaml =
    YNull
  | YBool bool
  | YInt int
  | YFloat rat
  | YStr ustr
  | YOther bool nat
  | YList "yaml list"
  | YDict "(yaml \<times> yaml) list"

type_synonym config = "(yaml \<times> yaml) list"

text \<open>Python's truth value, as \<open>not x\<close> and \<open>if x\<close> test it.\<close>

fun truthy :: "yaml \<Rightarrow> bool" where
  "truthy YNull = False"
| "truthy (YBool b) = b"
| "truthy (YInt n) = (n \<noteq> 0)"
| "truthy (YFloat r) = (r \<noteq> 0)"
| "truthy (YStr s) = (s \<noteq> [])"
| "truthy (YOther b n) = b"
| "truthy (YList xs) = (xs \<noteq> [])"
| "truthy (YDict kvs) = (kvs \<noteq> [])"

text \<open>
  Keys of a Python \<open>dict\<close>. Lists and mappings are not hashable. Two keys are the same
  when they are equal in Python: \<open>True\<close>, \<open>1\<close> and \<open>1.0\<close> are one key, a string is equal to
  the same string only.
\<close>

fun hashable :: "yaml \<Rightarrow> bool" where
  "hashable (YList xs) = False"
| "hashable (YDict kvs) = False"
| "hashable y = True"

fun key_norm :: "yaml \<Rightarrow> yaml" where
  "key_norm (YBool b) = YInt (if b then 1 else 0)"
| "key_norm (YFloat r) = (if of_int \<lfloor>r\<rfloor> = r then YInt \<lfloor>r\<rfloor> else YFloat r)"
| "key_norm y = y"

definition key_eq :: "yaml \<Rightarrow> yaml \<Rightarrow> bool" where
  "key_eq a b = (key_norm a = key_norm b)"

text \<open>The item stored under a key, if there is one.\<close>

fun py_lookup :: "config \<Rightarrow> yaml \<Rightarrow> yaml option" where
  "py_lookup [] k = None"
| "py_lookup ((k', v) # d) k = (if key_eq k' k then Some v else py_lookup d k)"

text \<open>
  \<open>d.get(s)\<close> for a string \<open>s\<close>, with \<open>None\<close> for a missing key, and \<open>d.get(s, dflt)\<close>.
\<close>

definition py_get :: "config \<Rightarrow> ustr \<Rightarrow> yaml option" where
  "py_get d s = py_lookup d (YStr s)"

definition dict_get :: "config \<Rightarrow> ustr \<Rightarrow> yaml \<Rightarrow> yaml" where
  "dict_get d k dflt = (case py_get d k of None \<Rightarrow> dflt | Some v \<Rightarrow> v)"

section \<open>Exceptions, the provider and what a run leaves behind\<close>

datatype config_error = KeyMissing | KeyPlaceholder yaml | NotDecodable

datatype exc =
    NameError
  | AttributeError
  | TypeError
  | OSError
  | YAMLError
  | ValueError config_error
  | SystemExit int

text \<open>The request \<open>client.messages.create\<close> gets, and what can come back.\<close>

record request =
  api_key :: yaml
  model :: yaml
  max_tokens :: yaml
  temperature :: yaml
  system :: ustr
  user_prompt :: ustr

text \<open>A content block with its \<open>type\<close> and, when it has one, its \<open>text\<close>.\<close>

datatype block = Block ustr "ustr option"

datatype content = Blocks "block list" | NotAList bool

text \<open>What \<open>client.messages.create\<close> ends with: a message, or one of the exceptions caught.\<close>

datatype api_outcome =
    Message content
  | APIStatusError int ustr
  | APIError ustr
  | OtherException

text \<open>
  One HTTP exchange with the provider: a successful response with its content; an error
  status with the \<open>x-should-retry\<close> header (if the server sent \<open>true\<close> or \<open>false\<close>) and the
  message; or no response at all (a timeout or a connection failure), with the text of
  the error the client raises for it.
\<close>

datatype http_outcome =
    Response content
  | ErrorStatus int "bool option" ustr
  | NoResponse ustr

text \<open>
  What the client does with a request: it raises before anything is sent (an exception
  that is no \<open>APIError\<close>), or it sends, and the provider answers the n-th attempt.
\<close>

datatype client_behaviour =
    Refuses
  | Sends "nat \<Rightarrow> http_outcome"

text \<open>
  The outside world of one run: the provider, and the result of the history lookup
  \<open>fc -ln -1\<close> (its standard output, or \<open>None\<close> when \<open>subprocess.run\<close> raises).
\<close>

record env =
  api :: "request \<Rightarrow> client_behaviour"
  history :: "ustr option"

text \<open>
  Standard output is kept as the exact text of each \<open>print\<close>. The messages on standard
  error are kept symbolically, one constructor for each \<open>print\<close> statement of the source
  with the values it interpolates.
\<close>

datatype debug_msg =
    LookingForConfig
  | ConfigLoaded
  | CallingAnthropic yaml yaml yaml
  | ApiCallSuccessful
  | UnexpectedStructure content
  | UsingProvider yaml
  | ChatQuery ustr
  | FixRequested ustr ustr bool
  | AutoFixDisabled
  | ManualFix ustr

datatype error_msg =
    ConfigNotFound
  | CopyTemplateHint
  | ConfigParseError
  | ConfigurationError config_error
  | ConfigLoadError
  | AnthropicKeyMissing
  | AnthropicStatusError int ustr
  | CheckKeyHint
  | AnthropicAPIError ustr
  | UnexpectedCallError
  | OpenAINotImplemented
  | UnknownProvider yaml
  | ChatNeedsQuestion
  | NoFailedCommand
  | HistoryError
  | RunFixAfterFailureHint
  | InvalidUsage
  | ArgumentError
  | ParsingFailed

text \<open>
  The events of a run, in order: text on standard output, a usage text of \<open>argparse\<close>
  (also on standard output), a message or a debug line on standard error (\<open>ArgumentError\<close>
  is the one \<open>argparse\<close> prints itself), a pause of the client before it sends a request
  again, a write to the global \<open>CONFIG\<close> with the value it has afterwards, a request
  sent to the provider, and a mark for each entry into the dispatcher
  \<open>call_ai_api\<close> (which prints nothing).
\<close>

datatype event =
    Out ustr
  | Usage
  | Err error_msg
  | Debug debug_msg
  | Call request
  | Backoff
  | Assigned config
  | Dispatched ustr

definition print_out :: "ustr \<Rightarrow> event" where
  "print_out s = Out (s @ [10])"

fun is_stdout :: "event \<Rightarrow> bool" where
  "is_stdout (Out s) = True"
| "is_stdout Usage = True"
| "is_stdout e = False"

fun is_call :: "event \<Rightarrow> bool" where
  "is_call (Call r) = True"
| "is_call e = False"

fun is_backoff :: "event \<Rightarrow> bool" where
  "is_backoff Backoff = True"
| "is_backoff e = False"

fun is_assigned :: "event \<Rightarrow> bool" where
  "is_assigned (Assigned c) = True"
| "is_assigned e = False"

fun is_dispatch :: "event \<Rightarrow> bool" where
  "is_dispatch (Dispatched p) = True"
| "is_dispatch e = False"

fun out_text :: "event list \<Rightarrow> ustr" where
  "out_text [] = []"
| "out_text (Out s # es) = s @ out_text es"
| "out_text (e # es) = out_text es"

fun prompts :: "event list \<Rightarrow> ustr list" where
  "prompts [] = []"
| "prompts (Call r # es) = user_prompt r # prompts es"
| "prompts (e # es) = prompts es"

text \<open>A procedure's run: its events, and the exception that ended it, if any.\<close>

type_synonym run = "event list \<times> exc option"

text \<open>The exit status of the process: an uncaught exception other than \<open>SystemExit\<close> gives 1.\<close>

fun exit_status :: "exc option \<Rightarrow> int" where
  "exit_status None = 0"
| "exit_status (Some (SystemExit n)) = n"
| "exit_status (Some e) = 1"

section \<open>The configuration loader\<close>

text \<open>
  \<open>print_debug\<close> reads the module's global \<open>CONFIG\<close>. The global is state: \<open>None\<close> is the
  name not bound yet, which is how the module calls \<open>load_config\<close> (\<open>CONFIG = load_config()\<close>
  binds the name only when the call has returned). Reading an unbound global raises
  \<open>NameError\<close>.
\<close>

definition debug :: "config \<Rightarrow> debug_msg \<Rightarrow> event list" where
  "debug cfg m = (if truthy (dict_get cfg (lit ''debug_mode'') (YBool False)) then [Debug m] else [])"

definition print_debug :: "config option \<Rightarrow> debug_msg \<Rightarrow> exc + event list" where
  "print_debug CONFIG m = (case CONFIG of None \<Rightarrow> Inl NameError | Some cfg \<Rightarrow> Inr (debug cfg m))"

text \<open>
  The file beside the script: absent, not openable, not decodable as text, not YAML, or a
  YAML document.
\<close>

datatype config_file = NoFile | OpenFails | Undecodable | NotYaml | Doc yaml

text \<open>
  The "basic validation" of \<open>load_config\<close>. A value without the method called on it
  raises \<open>AttributeError\<close> (for bytes' \<open>startswith\<close> on a \<open>str\<close> it is a \<open>TypeError\<close>, which
  the same handler catches), a list or mapping used as a key raises \<open>TypeError\<close>.
  \<open>provider_block\<close> is \<open>config.get(config['api_provider'], {})\<close>: the value of
  \<open>api_provider\<close> itself is the key.
\<close>

definition provider_block :: "config \<Rightarrow> yaml \<Rightarrow> exc + yaml" where
  "provider_block kvs p =
     (if hashable p
      then Inr (case py_lookup kvs p of None \<Rightarrow> YDict [] | Some v \<Rightarrow> v)
      else Inl TypeError)"

definition validate :: "yaml \<Rightarrow> exc + config" where
  "validate config =
     (case config of
        YDict kvs \<Rightarrow>
          (case py_get kvs (lit ''api_provider'') of
             None \<Rightarrow> Inl (ValueError KeyMissing)
           | Some p \<Rightarrow>
               if \<not> truthy p then Inl (ValueError KeyMissing)
               else
                 (case provider_block kvs p of
                    Inl e \<Rightarrow> Inl e
                  | Inr (YDict blk) \<Rightarrow>
                      (case py_get blk (lit ''api_key'') of
                         None \<Rightarrow> Inl (ValueError KeyMissing)
                       | Some k \<Rightarrow>
                           if \<not> truthy k then Inl (ValueError KeyMissing)
                           else
                             (case k of
                                YStr key \<Rightarrow>
                                  if py_startswith key (lit ''YOUR_'') \<or> key = []
                                  then Inl (ValueError (KeyPlaceholder p))
                                  else Inr kvs
                              | _ \<Rightarrow> Inl AttributeError))
                  | Inr _ \<Rightarrow> Inl AttributeError))
      | _ \<Rightarrow> Inl AttributeError)"

text \<open>
  The \<open>try\<close> block of \<open>load_config\<close>: open, parse, debug line, validation. A file that
  cannot be decoded raises \<open>UnicodeDecodeError\<close>, which is a \<open>ValueError\<close>.
\<close>

definition load_body :: "config option \<Rightarrow> config_file \<Rightarrow> event list \<times> (exc + config)" where
  "load_body CONFIG f =
     (case f of
        NoFile \<Rightarrow> ([], Inl OSError)
      | OpenFails \<Rightarrow> ([], Inl OSError)
      | Undecodable \<Rightarrow> ([], Inl (ValueError NotDecodable))
      | NotYaml \<Rightarrow> ([], Inl YAMLError)
      | Doc y \<Rightarrow>
          (case print_debug CONFIG ConfigLoaded of
             Inl e \<Rightarrow> ([], Inl e)
           | Inr d \<Rightarrow> (d, validate y)))"

definition load_config :: "config option \<Rightarrow> config_file \<Rightarrow> event list \<times> (exc + config)" where
  "load_config CONFIG f =
     (case print_debug CONFIG LookingForConfig of
        Inl e \<Rightarrow> ([], Inl e)
      | Inr d0 \<Rightarrow>
          (case f of
             NoFile \<Rightarrow> (d0 @ [Err ConfigNotFound, Err CopyTemplateHint], Inl (SystemExit 1))
           | _ \<Rightarrow>
               (case load_body CONFIG f of
                  (d, Inr cfg) \<Rightarrow> (d0 @ d, Inr cfg)
                | (d, Inl YAMLError) \<Rightarrow> (d0 @ d @ [Err ConfigParseError], Inl (SystemExit 1))
                | (d, Inl (ValueError v)) \<Rightarrow>
                    (d0 @ d @ [Err (ConfigurationError v)], Inl (SystemExit 1))
                | (d, Inl e) \<Rightarrow> (d0 @ d @ [Err ConfigLoadError], Inl (SystemExit 1)))))"

text \<open>
  The module level: \<open>try: CONFIG = load_config()  except SystemExit: sys.exit(1)\<close>, with
  \<open>CONFIG\<close> unbound during the call. Any other exception is not caught.
\<close>

definition startup :: "config_file \<Rightarrow> event list \<times> (exc + config)" where
  "startup f =
     (case load_config None f of
        (d, Inl (SystemExit n)) \<Rightarrow> (d, Inl (SystemExit 1))
      | r \<Rightarrow> r)"

section \<open>The provider client and the dispatcher\<close>

text \<open>
  From here on the functions run after the module has bound \<open>CONFIG\<close>, a mapping, so they
  take its value and their debug lines are \<open>debug\<close>.
\<close>

definition system_instruction :: ustr where
  "system_instruction =
     lit ''You are a helpful AI assistant integrated into a user'' @ [39] @
     lit ''s terminal. Provide concise and accurate explanations or shell commands. Format commands clearly, often in code blocks.''"

definition unexpected_format :: ustr where
  "unexpected_format = lit ''Error: Received unexpected response format from API.''"

text \<open>
  The client of line 63, \<open>Anthropic(api_key=api_key)\<close>, is built with the defaults of the
  SDK, which is no part of the repository: \<open>max_retries\<close> is 2. \<open>messages.create\<close> sends the
  request; when no response comes, or an error status that the SDK retries (\<open>x-should-retry\<close>
  if the server sent it, else 408, 409, 429 and every status from 500 on), and a retry is
  left, it pauses and sends the request again. What the last attempt gave is returned or
  raised: \<open>APIStatusError\<close> for a status, \<open>APIError\<close> (its connection and timeout
  subclasses) for no response.
\<close>

definition max_retries :: nat where
  "max_retries = 2"

definition should_retry :: "http_outcome \<Rightarrow> bool" where
  "should_retry r =
     (case r of
        Response c \<Rightarrow> False
      | NoResponse m \<Rightarrow> True
      | ErrorStatus code hdr m \<Rightarrow>
          (case hdr of
             Some b \<Rightarrow> b
           | None \<Rightarrow> code = 408 \<or> code = 409 \<or> code = 429 \<or> 500 \<le> code))"

definition raised :: "http_outcome \<Rightarrow> api_outcome" where
  "raised r =
     (case r of
        Response c \<Rightarrow> Message c
      | ErrorStatus code hdr m \<Rightarrow> APIStatusError code m
      | NoResponse m \<Rightarrow> APIError m)"

fun send_with_retries ::
  "(nat \<Rightarrow> http_outcome) \<Rightarrow> request \<Rightarrow> nat \<Rightarrow> nat \<Rightarrow> event list \<times> api_outcome" where
  "send_with_retries t req taken 0 = ([Call req], raised (t taken))"
| "send_with_retries t req taken (Suc remaining) =
     (if should_retry (t taken) then
        (case send_with_retries t req (Suc taken) remaining of
           (es, out) \<Rightarrow> (Call req # Backoff # es, out))
      else ([Call req], raised (t taken)))"

definition create :: "env \<Rightarrow> request \<Rightarrow> event list \<times> api_outcome" where
  "create w req =
     (case api w req of
        Refuses \<Rightarrow> ([], OtherException)
      | Sends t \<Rightarrow> send_with_retries t req 0 max_retries)"

text \<open>Lines 75 to 79: what is made of the content of a successful response.\<close>

definition extract_text :: "config \<Rightarrow> content \<Rightarrow> event list \<times> (exc + ustr option)" where
  "extract_text cfg c =
     (case c of
        Blocks (Block ty tx # rest) \<Rightarrow>
          if ty = lit ''text'' then
            (case tx of
               Some t \<Rightarrow> ([], Inr (Some (py_strip t)))
             | None \<Rightarrow> ([], Inl AttributeError))
          else (debug cfg (UnexpectedStructure c), Inr (Some unexpected_format))
      | _ \<Rightarrow> (debug cfg (UnexpectedStructure c), Inr (Some unexpected_format)))"

definition call_anthropic_api :: "config \<Rightarrow> env \<Rightarrow> ustr \<Rightarrow> event list \<times> (exc + ustr option)" where
  "call_anthropic_api cfg w prompt =
     (case dict_get cfg (lit ''anthropic'') (YDict []) of
        YDict provider_config \<Rightarrow>
          (let key = py_get provider_config (lit ''api_key'');
               mdl = dict_get provider_config (lit ''model'') (YStr (lit ''claude-3-sonnet-20240229''));
               mt = dict_get provider_config (lit ''max_tokens'') (YInt 500);
               tmp = dict_get provider_config (lit ''temperature'') (YFloat (1 / 2))
           in
             (case key of
                None \<Rightarrow> ([Err AnthropicKeyMissing], Inr None)
              | Some k \<Rightarrow>
                  if \<not> truthy k then ([Err AnthropicKeyMissing], Inr None)
                  else
                    (let req = \<lparr>api_key = k, model = mdl, max_tokens = mt, temperature = tmp,
                                 system = system_instruction, user_prompt = prompt\<rparr>;
                         before = debug cfg (CallingAnthropic mdl mt tmp) @ fst (create w req)
                     in
                       (case snd (create w req) of
                          Message c \<Rightarrow>
                            (case extract_text cfg c of
                               (d, Inl e) \<Rightarrow>
                                 (before @ debug cfg ApiCallSuccessful @ d @ [Err UnexpectedCallError],
                                  Inr None)
                             | (d, Inr r) \<Rightarrow> (before @ debug cfg ApiCallSuccessful @ d, Inr r))
                        | APIStatusError code msg \<Rightarrow>
                            (before @ [Err (AnthropicStatusError code msg)] @
                               (if code = 401 then [Err CheckKeyHint] else []),
                             Inr None)
                        | APIError msg \<Rightarrow> (before @ [Err (AnthropicAPIError msg)], Inr None)
                        | OtherException \<Rightarrow> (before @ [Err UnexpectedCallError], Inr None)))))
      | _ \<Rightarrow> ([], Inl AttributeError))"

definition call_ai_api :: "config \<Rightarrow> env \<Rightarrow> ustr \<Rightarrow> event list \<times> (exc + ustr option)" where
  "call_ai_api cfg w prompt =
     (let provider = dict_get cfg (lit ''api_provider'') (YStr (lit ''anthropic''));
          d = Dispatched prompt # debug cfg (UsingProvider provider)
      in
        if provider = YStr (lit ''anthropic'') then
          (case call_anthropic_api cfg w prompt of (es, r) \<Rightarrow> (d @ es, r))
        else if provider = YStr (lit ''openai'') then
          (d @ [Err OpenAINotImplemented], Inr (Some (lit ''OpenAI support not ready.'')))
        else (d @ [Err (UnknownProvider provider)], Inr None))"

section \<open>Formatting and the command handlers\<close>

definition title_line :: "ustr \<Rightarrow> ustr" where
  "title_line title =
     [10, 27] @ lit ''[1;36m'' @ [240, 376, 164, 8211] @ lit '' '' @ title @ lit '':'' @ [27] @
     lit ''[0m''"

definition indent :: ustr where
  "indent = lit ''   ''"

text \<open>The loop over the lines of the response: one \<open>print\<close> for each.\<close>

fun print_lines :: "ustr list \<Rightarrow> event list" where
  "print_lines [] = []"
| "print_lines (l # ls) = print_out (indent @ l) # print_lines ls"

definition format_ai_response :: "ustr \<Rightarrow> ustr \<Rightarrow> event list" where
  "format_ai_response response_text title =
     print_out (title_line title) # print_lines (py_splitlines response_text) @ [print_out []]"

text \<open>\<open>if response: format_ai_response(response, title=...)\<close>\<close>

definition show_response :: "ustr option \<Rightarrow> ustr \<Rightarrow> event list" where
  "show_response response title =
     (case response of
        None \<Rightarrow> []
      | Some t \<Rightarrow> if t = [] then [] else format_ai_response t title)"

text \<open>
  The attributes of the \<open>argparse\<close> namespace the program reads; \<open>None\<close> is an attribute
  that is missing (or, for \<open>command\<close>, \<open>None\<close>).
\<close>

record namespace =
  command :: "ustr option"
  query :: "ustr list option"
  exit_code :: "ustr option"

definition chat_prompt :: "ustr \<Rightarrow> ustr" where
  "chat_prompt q =
     lit ''The user asked the following question in their terminal: '' @ [39] @ q @ [39] @
     lit ''. Provide a helpful answer or relevant command(s).''"

definition handle_chat :: "config \<Rightarrow> env \<Rightarrow> namespace \<Rightarrow> run" where
  "handle_chat cfg w args =
     (case query args of
        None \<Rightarrow> ([], Some AttributeError)
      | Some qs \<Rightarrow>
          (let q = py_join qs in
             if q = [] then ([Err ChatNeedsQuestion], Some (SystemExit 1))
             else
               (case call_ai_api cfg w (chat_prompt q) of
                  (es, Inl e) \<Rightarrow> (debug cfg (ChatQuery q) @ es, Some e)
                | (es, Inr response) \<Rightarrow>
                    (debug cfg (ChatQuery q) @ es @ show_response response (lit ''AI Chat''),
                     None))))"

definition fix_prompt :: "ustr \<Rightarrow> ustr \<Rightarrow> ustr" where
  "fix_prompt cmd code =
     lit ''The following shell command failed with exit code '' @ code @ lit '':'' @ [10] @
     lit ''```'' @ [10] @ cmd @ [10] @ lit ''```'' @ [10] @
     lit ''Explain the likely reason for the error and suggest one or more specific commands to fix it or achieve the user'' @
     [39] @ lit ''s likely intent. If it'' @ [39] @
     lit ''s a simple typo, point it out. Be concise.''"

definition fix_title :: "ustr \<Rightarrow> ustr" where
  "fix_title cmd = lit ''AI Fix Suggestion (for `'' @ cmd @ lit ''`)''"

definition handle_fix_error :: "config \<Rightarrow> env \<Rightarrow> ustr \<Rightarrow> ustr \<Rightarrow> bool \<Rightarrow> run" where
  "handle_fix_error cfg w cmd code is_automatic =
     (if cmd = [] then ([Err NoFailedCommand], None)
      else
        (let d = debug cfg (FixRequested cmd code is_automatic) in
           if is_automatic \<and> \<not> truthy (dict_get cfg (lit ''auto_fix_errors'') (YBool False))
           then (d @ debug cfg AutoFixDisabled, None)
           else
             (case call_ai_api cfg w (fix_prompt cmd code) of
                (es, Inl e) \<Rightarrow> (d @ es, Some e)
              | (es, Inr response) \<Rightarrow> (d @ es @ show_response response (fix_title cmd), None))))"

definition build_message :: ustr where
  "build_message =
     [27] @ lit ''[93mSorry, the '' @ [39] @ lit ''build'' @ [39] @
     lit '' command (generating commands from description) is not yet implemented.'' @ [27] @
     lit ''[0m''"

definition handle_build :: run where
  "handle_build = ([print_out build_message], None)"

section \<open>The entry point\<close>

text \<open>
  \<open>parser.parse_args()\<close> belongs to the standard library, so \<open>main\<close> takes it as a
  parameter: from the arguments after the program name to a namespace, to the exit of a
  help request (usage on standard output, then \<open>SystemExit(0)\<close>), to the exit of a parse
  error (usage and error on standard error, then \<open>SystemExit(2)\<close>), or to another
  exception.
\<close>

datatype parse_outcome =
    Parsed namespace
  | HelpExit
  | ErrorExit
  | ParserRaised

definition known_commands :: "ustr list" where
  "known_commands = [lit ''chat'', lit ''fix'', lit ''build'', lit ''--internal-fix-error'']"

text \<open>Lines 200 to 202: a first argument that is no command and no option makes it a chat.\<close>

definition effective_argv :: "ustr list \<Rightarrow> ustr list" where
  "effective_argv argv =
     (case argv of
        [] \<Rightarrow> []
      | a # rest \<Rightarrow>
          if a \<notin> set known_commands \<and> \<not> py_startswith a (lit ''-'')
          then lit ''chat'' # argv else argv)"

text \<open>Lines 212 to 219: no command was parsed.\<close>

definition no_command :: "ustr list \<Rightarrow> run" where
  "no_command argv =
     (case argv of
        [] \<Rightarrow> ([Usage], Some (SystemExit 1))
      | a # rest \<Rightarrow>
          if a = lit ''-h'' \<or> a = lit ''--help'' then ([Usage], Some (SystemExit 1))
          else ([Err InvalidUsage], Some (SystemExit 1)))"

text \<open>
  The manual \<open>fix\<close>: everything is inside \<open>try ... except Exception\<close>, so an exception of the
  history lookup or of the handler ends in the two messages; \<open>SystemExit\<close> is no \<open>Exception\<close>.
\<close>

definition manual_fix :: "config \<Rightarrow> env \<Rightarrow> run" where
  "manual_fix cfg w =
     (case history w of
        None \<Rightarrow> ([Err HistoryError, Err RunFixAfterFailureHint], None)
      | Some out \<Rightarrow>
          (let last_cmd = py_strip out;
               d = debug cfg (ManualFix last_cmd)
           in
             (case handle_fix_error cfg w last_cmd (lit ''unknown'') False of
                (es, None) \<Rightarrow> (d @ es, None)
              | (es, Some (SystemExit n)) \<Rightarrow> (d @ es, Some (SystemExit n))
              | (es, Some e) \<Rightarrow> (d @ es @ [Err HistoryError, Err RunFixAfterFailureHint], None))))"

text \<open>
  Lines 223 to 244. The last branch passes \<open>args.command\<close>, the attribute the branch has
  just compared with the name of the subcommand.
\<close>

definition execute_command :: "config \<Rightarrow> env \<Rightarrow> namespace \<Rightarrow> run" where
  "execute_command cfg w args =
     (if command args = Some (lit ''chat'') then handle_chat cfg w args
      else if command args = Some (lit ''fix'') then manual_fix cfg w
      else if command args = Some (lit ''build'') then handle_build
      else if command args = Some (lit ''--internal-fix-error'') then
        (case command args of
           None \<Rightarrow> ([], Some AttributeError)
         | Some c \<Rightarrow>
             (case exit_code args of
                None \<Rightarrow> ([], Some AttributeError)
              | Some code \<Rightarrow> handle_fix_error cfg w c code True))
      else ([], None))"

definition main :: "(ustr list \<Rightarrow> parse_outcome) \<Rightarrow> config \<Rightarrow> env \<Rightarrow> ustr list \<Rightarrow> run" where
  "main parse_args cfg w argv =
     (let argv' = effective_argv argv in
        (case parse_args argv' of
           ParserRaised \<Rightarrow> ([Err ParsingFailed], Some (SystemExit 1))
         | HelpExit \<Rightarrow> (case no_command argv' of (es, r) \<Rightarrow> (Usage # es, r))
         | ErrorExit \<Rightarrow> (case no_command argv' of (es, r) \<Rightarrow> (Err ArgumentError # es, r))
         | Parsed args \<Rightarrow>
             (case command args of
                None \<Rightarrow> no_command argv'
              | Some c \<Rightarrow> execute_command cfg w args)))"

text \<open>
  The whole script: the module level, where line 165 binds \<open>CONFIG\<close> to what the loader
  returned, then \<open>main()\<close>. No other statement of the source assigns to \<open>CONFIG\<close> or
  changes the mapping in place (the functions call \<open>get\<close> on it and nothing else), so no
  function below has an \<open>Assigned\<close> event of its own.
\<close>

definition script ::
  "(ustr list \<Rightarrow> parse_outcome) \<Rightarrow> config_file \<Rightarrow> env \<Rightarrow> ustr list \<Rightarrow> run" where
  "script parse_args f w argv =
     (case startup f of
        (d, Inl e) \<Rightarrow> (d, Some e)
      | (d, Inr cfg) \<Rightarrow>
          (case main parse_args cfg w argv of (es, r) \<Rightarrow> (d @ Assigned cfg # es, r)))"

section \<open>Notions the properties are stated with\<close>

text \<open>The lines a terminal shows for a text: each \<open>\n\<close> ends one.\<close>

fun screen_lines_from :: "ustr \<Rightarrow> ustr \<Rightarrow> ustr list" where
  "screen_lines_from cur [] = (if cur = [] then [] else [cur])"
| "screen_lines_from cur (c # cs) =
     (if c = 10 then cur # screen_lines_from [] cs else screen_lines_from (cur @ [c]) cs)"

definition screen_lines :: "ustr \<Rightarrow> ustr list" where
  "screen_lines s = screen_lines_from [] s"

text \<open>The text of the first block of type \<open>text\<close> in a list of blocks, wherever it stands.\<close>

fun first_text :: "block list \<Rightarrow> ustr option" where
  "first_text [] = None"
| "first_text (Block ty tx # bs) = (if ty = lit ''text'' then tx else first_text bs)"

text \<open>
  The invariant of a loaded configuration: \<open>api_provider\<close> has a value that is not empty
  (true for Python), the configuration has a block under that value as its key, and the
  block's \<open>api_key\<close> is a string that is neither empty nor a \<open>YOUR_\<close> placeholder.
\<close>

definition config_ok :: "config \<Rightarrow> bool" where
  "config_ok cfg =
     (case py_get cfg (lit ''api_provider'') of
        Some p \<Rightarrow>
          truthy p \<and> hashable p \<and>
          (case py_lookup cfg p of
             Some (YDict blk) \<Rightarrow>
               (case py_get blk (lit ''api_key'') of
                  Some (YStr key) \<Rightarrow> key \<noteq> [] \<and> \<not> py_startswith key (lit ''YOUR_'')
                | _ \<Rightarrow> False)
           | _ \<Rightarrow> False)
      | None \<Rightarrow> False)"

text \<open>The value of the global \<open>CONFIG\<close> after the events of a run, from its value before.\<close>

fun config_at :: "config option \<Rightarrow> event list \<Rightarrow> config option" where
  "config_at g [] = g"
| "config_at g (Assigned c # es) = config_at (Some c) es"
| "config_at g (e # es) = config_at g es"

text \<open>A call to the provider that failed: the client raised instead of returning a message.\<close>

fun is_failure :: "api_outcome \<Rightarrow> bool" where
  "is_failure (Message c) = False"
| "is_failure out = True"

text \<open>No text on standard output and no request to the provider.\<close>

definition silent :: "event list \<Rightarrow> bool" where
  "silent es = (filter is_stdout es = [] \<and> filter is_call es = [])"

text \<open>An invocation with no argument, or with \<open>-h\<close> or \<open>--help\<close> first.\<close>

definition asks_usage :: "ustr list \<Rightarrow> bool" where
  "asks_usage argv = (case argv of [] \<Rightarrow> True | a # rest \<Rightarrow> a = lit ''-h'' \<or> a = lit ''--help'')"

text \<open>The arguments the shell hook passes.\<close>

definition hook_argv :: "ustr \<Rightarrow> ustr \<Rightarrow> ustr list" where
  "hook_argv c e = [lit ''--internal-fix-error'', lit ''--command'', c, lit ''--exit_code'', e]"

subsection \<open>Concrete inputs\<close>

definition anthropic_config :: "bool \<Rightarrow> config" where
  "anthropic_config auto_fix =
     [(YStr (lit ''api_provider''), YStr (lit ''anthropic'')),
      (YStr (lit ''anthropic''), YDict [(YStr (lit ''api_key''), YStr (lit ''sk-test''))]),
      (YStr (lit ''auto_fix_errors''), YBool auto_fix)]"

definition gemini_config :: config where
  "gemini_config =
     [(YStr (lit ''api_provider''), YStr (lit ''gemini'')),
      (YStr (lit ''gemini''), YDict [(YStr (lit ''api_key''), YStr (lit ''g-test''))])]"

text \<open>A provider named by a number: the block stands under the key \<open>5\<close>.\<close>

definition numbered_config :: config where
  "numbered_config =
     [(YStr (lit ''api_provider''), YInt 5),
      (YInt 5, YDict [(YStr (lit ''api_key''), YStr (lit ''k-test''))])]"

text \<open>
  A provider that behaves the same on every attempt, named by what a single attempt makes
  \<open>create\<close> end with.
\<close>

fun behaving :: "api_outcome \<Rightarrow> client_behaviour" where
  "behaving (Message c) = Sends (\<lambda>n. Response c)"
| "behaving (APIStatusError code msg) = Sends (\<lambda>n. ErrorStatus code None msg)"
| "behaving (APIError msg) = Sends (\<lambda>n. NoResponse msg)"
| "behaving OtherException = Refuses"

definition answering :: "api_outcome \<Rightarrow> env" where
  "answering out = \<lparr>api = (\<lambda>r. behaving out), history = Some (lit ''gti status'' @ [10])\<rparr>"

definition tool_then_text :: "block list" where
  "tool_then_text = [Block (lit ''tool_use'') None, Block (lit ''text'') (Some (lit '' hi ''))]"

definition chat_args :: "ustr list \<Rightarrow> namespace" where
  "chat_args qs = \<lparr>command = Some (lit ''chat''), query = Some qs, exit_code = None\<rparr>"

definition hook_args :: "ustr \<Rightarrow> namespace" where
  "hook_args e = \<lparr>command = Some (lit ''--internal-fix-error''), query = None, exit_code = Some e\<rparr>"

section \<open>The formatted block\<close>

lemma splitlines_from_no_break:
  "\<forall>c \<in> set cur. \<not> py_linebreak c \<Longrightarrow> l \<in> set (splitlines_from cur s) \<Longrightarrow> c \<in> set l \<Longrightarrow> \<not> py_linebreak c"
  by (induction cur s rule: splitlines_from.induct) (auto split: if_splits)

lemma py_splitlines_no_newline: "l \<in> set (py_splitlines s) \<Longrightarrow> 10 \<notin> set l"
  using splitlines_from_no_break [of "[]" l s 10] by (auto simp: py_splitlines_def py_linebreak_def)

lemma screen_lines_from_line:
  "10 \<notin> set l \<Longrightarrow> screen_lines_from cur (l @ 10 # rest) = (cur @ l) # screen_lines_from [] rest"
  by (induction l arbitrary: cur) auto

lemma out_text_print_lines:
  "out_text (print_lines ls @ es) = concat (map (\<lambda>l. indent @ l @ [10]) ls) @ out_text es"
  by (induction ls) (auto simp: print_out_def)

lemma screen_lines_body:
  "\<forall>l \<in> set ls. 10 \<notin> set l \<Longrightarrow>
   screen_lines_from [] (concat (map (\<lambda>l. indent @ l @ [10]) ls) @ rest) =
     map (\<lambda>l. indent @ l) ls @ screen_lines_from [] rest"
proof (induction ls)
  case Nil
  then show ?case by simp
next
  case (Cons l ls)
  have "10 \<notin> set (indent @ l)" using Cons.prems by (simp add: indent_def lit_def)
  from screen_lines_from_line [OF this, of "[]"] Cons show ?case by simp
qed

text \<open>
  C9. The output of \<open>format_ai_response\<close>, read as the lines of a terminal, is a titled
  block: the \<open>print\<close> of the title starts with a newline, so an empty line comes first,
  then the title line, then every line of the response text (as \<open>splitlines\<close> cuts it)
  behind the same three-space prefix, then one empty line. The title must not contain a
  newline itself.
\<close>

theorem format_ai_response_block:
  assumes "10 \<notin> set title"
  shows "screen_lines (out_text (format_ai_response text title)) =
           [] # tl (title_line title) # map (\<lambda>l. indent @ l) (py_splitlines text) @ [[]]"
proof -
  have t: "10 \<notin> set (tl (title_line title))"
    using assms by (simp add: title_line_def lit_def)
  have hd: "title_line title = 10 # tl (title_line title)"
    by (simp add: title_line_def)
  have "out_text (format_ai_response text title) =
          10 # tl (title_line title) @ 10 #
          (concat (map (\<lambda>l. indent @ l @ [10]) (py_splitlines text)) @ [10])"
    unfolding format_ai_response_def
    using out_text_print_lines [of "py_splitlines text" "[print_out []]"] hd
    by (simp add: print_out_def)
  moreover have "\<forall>l \<in> set (py_splitlines text). 10 \<notin> set l"
    using py_splitlines_no_newline by blast
  ultimately show ?thesis
    using screen_lines_from_line [OF t, of "[]"] screen_lines_body [of "py_splitlines text" "[10]"]
    by (simp add: screen_lines_def)
qed

text \<open>The response \<open>Use `ls`.\<close> under the title \<open>AI Chat\<close>: exactly that line, indented.\<close>

theorem format_ai_response_block_witness:
  "10 \<notin> set (lit ''AI Chat'') \<and>
   screen_lines (out_text (format_ai_response (lit ''Use `ls`.'') (lit ''AI Chat''))) =
     [[], [27] @ lit ''[1;36m'' @ [240, 376, 164, 8211] @ lit '' AI Chat:'' @ [27] @ lit ''[0m'',
      lit ''   Use `ls`.'', []]"
proof -
  have h: "10 \<notin> set (lit ''AI Chat'')" by (simp add: lit_def)
  show ?thesis
    using h format_ai_response_block [OF h, of "lit ''Use `ls`.''"]
    by (simp add: py_splitlines_def py_linebreak_def title_line_def indent_def lit_def)
qed

section \<open>The provider client, the dispatcher and the chat handler\<close>

lemma key_eq_str [simp]: "key_eq k (YStr s) = (k = YStr s)"
  by (cases k) (auto simp: key_eq_def)

lemma snd_send_constant:
  "snd (send_with_retries (\<lambda>n. h) req taken remaining) = raised h"
  by (induction remaining arbitrary: taken) (simp_all add: split_beta)

lemma snd_create_answering [simp]: "snd (create (answering out) req) = out"
  by (cases out) (simp_all add: create_def answering_def snd_send_constant raised_def)

lemma send_counts:
  "length (filter is_backoff (fst (send_with_retries t req taken remaining))) + 1 =
     length (filter is_call (fst (send_with_retries t req taken remaining))) \<and>
   length (filter is_call (fst (send_with_retries t req taken remaining))) \<le> Suc remaining"
proof (induction remaining arbitrary: taken)
  case 0
  show ?case by simp
next
  case (Suc remaining)
  from Suc [of "Suc taken"] show ?case by (simp add: split_beta)
qed

lemma send_calls:
  "length (filter is_call (fst (send_with_retries t req 0 max_retries))) =
     (if \<not> should_retry (t 0) then 1 else if \<not> should_retry (t 1) then 2 else 3)"
  by (simp add: max_retries_def numeral_2_eq_2 split_beta)

lemma send_no_stdout [simp]:
  "filter is_stdout (fst (send_with_retries t req taken remaining)) = []"
  by (induction remaining arbitrary: taken) (simp_all add: split_beta)

lemma debug_no_call [simp]: "filter is_call (debug cfg m) = []"
  by (simp add: debug_def)

lemma debug_no_stdout [simp]: "filter is_stdout (debug cfg m) = []"
  by (simp add: debug_def)

text \<open>
  C3, as the code has it. When the configuration holds an Anthropic key and
  \<open>messages.create\<close> returns a message with a non-empty list of blocks, the first block of the list alone decides: if
  its type is \<open>text\<close> the result is its text, stripped (nothing, if the block has no
  text); otherwise the result is the fixed error string, whatever blocks follow.
\<close>

theorem first_block_decides:
  assumes "py_get cfg (lit ''anthropic'') = Some (YDict pc)"
    and "py_get pc (lit ''api_key'') = Some k" and "truthy k"
    and "\<And>r. snd (create w r) = Message (Blocks (Block ty tx # rest))"
  shows "snd (call_anthropic_api cfg w p) =
           Inr (if ty = lit ''text'' then map_option py_strip tx else Some unexpected_format)"
  using assms
  by (cases tx) (simp_all add: call_anthropic_api_def dict_get_def Let_def extract_text_def)

text \<open>
  Two text blocks: the first one's text comes back, without the spaces around it.
\<close>

theorem first_block_decides_witness:
  "snd (call_anthropic_api (anthropic_config True)
          (answering (Message (Blocks [Block (lit ''text'') (Some (lit '' Use `ls`. '')),
                                       Block (lit ''text'') (Some (lit ''more''))])))
          (chat_prompt (lit ''list files''))) = Inr (Some (lit ''Use `ls`.''))"
proof -
  have a: "py_get (anthropic_config True) (lit ''anthropic'') =
             Some (YDict [(YStr (lit ''api_key''), YStr (lit ''sk-test''))])"
    by (simp add: anthropic_config_def py_get_def lit_def)
  have b: "py_get [(YStr (lit ''api_key''), YStr (lit ''sk-test''))] (lit ''api_key'') =
             Some (YStr (lit ''sk-test''))"
    by (simp add: py_get_def)
  have c: "truthy (YStr (lit ''sk-test''))" by (simp add: lit_def)
  have d: "\<And>r. snd (create (answering (Message (Blocks [Block (lit ''text'') (Some (lit '' Use `ls`. '')),
                                       Block (lit ''text'') (Some (lit ''more''))]))) r) =
            Message (Blocks (Block (lit ''text'') (Some (lit '' Use `ls`. '')) # [Block (lit ''text'') (Some (lit ''more''))]))"
    by simp
  show ?thesis
    using first_block_decides [OF a b c d]
    by (simp add: py_strip_def py_isspace_def lit_def)
qed

text \<open>
  C3 as stated fails: for a \<open>tool_use\<close> block followed by a text block, the first text
  block is the second block, and the client does not return its stripped text (it returns
  the fixed error string).
\<close>

theorem later_text_block_counterexample:
  "first_text tool_then_text = Some (lit '' hi '') \<and>
   snd (call_anthropic_api (anthropic_config True) (answering (Message (Blocks tool_then_text)))
          (chat_prompt (lit ''list files''))) \<noteq>
     Inr (map_option py_strip (first_text tool_then_text))"
  by (simp add: tool_then_text_def call_anthropic_api_def anthropic_config_def
      dict_get_def py_get_def extract_text_def unexpected_format_def py_strip_def py_isspace_def
      lit_def debug_def Let_def)


text \<open>
  C8, as the code has it. When the call to the provider fails (a status error or no
  response at all), \<open>call_anthropic_api\<close> returns \<open>None\<close> and has printed a diagnostic on
  standard error; for a status error the diagnostic carries the status and the message,
  and the hint about the API key is printed exactly when the status is 401. The function
  calls \<open>messages.create\<close> once and repeats nothing itself, but the client has the SDK's
  default of two retries: one request is sent when the first failure is none the SDK
  retries, two when the second attempt's is none, three otherwise, with a pause of the
  client before each request after the first.
\<close>

theorem anthropic_failure_attempts:
  assumes "py_get cfg (lit ''anthropic'') = Some (YDict pc)"
    and "py_get pc (lit ''api_key'') = Some k" and "truthy k"
    and "\<And>r. api w r = Sends t" and "\<And>r. snd (create w r) = out" and "is_failure out"
  shows "snd (call_anthropic_api cfg w p) = Inr None \<and>
         (\<exists>m. Err m \<in> set (fst (call_anthropic_api cfg w p))) \<and>
         (case out of
            APIStatusError code msg \<Rightarrow>
              Err (AnthropicStatusError code msg) \<in> set (fst (call_anthropic_api cfg w p)) \<and>
              (Err CheckKeyHint \<in> set (fst (call_anthropic_api cfg w p))) = (code = 401)
          | _ \<Rightarrow> Err CheckKeyHint \<notin> set (fst (call_anthropic_api cfg w p))) \<and>
         length (filter is_call (fst (call_anthropic_api cfg w p))) =
           (if \<not> should_retry (t 0) then 1 else if \<not> should_retry (t 1) then 2 else 3) \<and>
         length (filter is_backoff (fst (call_anthropic_api cfg w p))) + 1 =
           length (filter is_call (fst (call_anthropic_api cfg w p)))"
proof -
  define req where
    "req = \<lparr>api_key = k,
            model = dict_get pc (lit ''model'') (YStr (lit ''claude-3-sonnet-20240229'')),
            max_tokens = dict_get pc (lit ''max_tokens'') (YInt 500),
            temperature = dict_get pc (lit ''temperature'') (YFloat (1 / 2)),
            system = system_instruction, user_prompt = p\<rparr>"
  have sent: "fst (create w req) = fst (send_with_retries t req 0 max_retries)"
    using assms(4) by (simp add: create_def)
  have run: "call_anthropic_api cfg w p =
      (debug cfg (CallingAnthropic (model req) (max_tokens req) (temperature req)) @
         fst (create w req) @
         (case out of
            APIStatusError code msg \<Rightarrow>
              Err (AnthropicStatusError code msg) # (if code = 401 then [Err CheckKeyHint] else [])
          | APIError msg \<Rightarrow> [Err (AnthropicAPIError msg)]
          | _ \<Rightarrow> [Err UnexpectedCallError]),
       Inr None)"
    using assms(1-3,5,6)
    by (cases out) (simp_all add: call_anthropic_api_def dict_get_def Let_def req_def)
  have no_err: "Err m \<notin> set (fst (send_with_retries t req a b))" for m a b
    by (induction b arbitrary: a) (simp_all add: split_beta)
  have calls: "length (filter is_call (fst (call_anthropic_api cfg w p))) =
                 length (filter is_call (fst (send_with_retries t req 0 max_retries)))"
    by (cases out) (simp_all add: run sent)
  have backoffs: "length (filter is_backoff (fst (call_anthropic_api cfg w p))) =
                    length (filter is_backoff (fst (send_with_retries t req 0 max_retries)))"
    by (cases out) (simp_all add: run sent debug_def)
  have hint: "(case out of
            APIStatusError code msg \<Rightarrow>
              Err (AnthropicStatusError code msg) \<in> set (fst (call_anthropic_api cfg w p)) \<and>
              (Err CheckKeyHint \<in> set (fst (call_anthropic_api cfg w p))) = (code = 401)
          | _ \<Rightarrow> Err CheckKeyHint \<notin> set (fst (call_anthropic_api cfg w p)))"
    using assms(6) by (cases out) (auto simp: run sent no_err debug_def)
  have ex: "\<exists>m. Err m \<in> set (fst (call_anthropic_api cfg w p))"
    using assms(6) by (cases out) (auto simp: run)
  have res: "snd (call_anthropic_api cfg w p) = Inr None"
    by (simp add: run)
  have counts: "length (filter is_call (fst (call_anthropic_api cfg w p))) =
           (if \<not> should_retry (t 0) then 1 else if \<not> should_retry (t 1) then 2 else 3) \<and>
         length (filter is_backoff (fst (call_anthropic_api cfg w p))) + 1 =
           length (filter is_call (fst (call_anthropic_api cfg w p)))"
    using send_counts [of t req 0 max_retries] send_calls [of t req]
    by (simp only: calls backoffs)
  from res ex hint counts show ?thesis by blast
qed

text \<open>
  A 401 from the provider: the status line and the hint, one request and no pause.
\<close>

theorem anthropic_failure_attempts_witness:
  "snd (call_anthropic_api (anthropic_config True) (answering (APIStatusError 401 (lit ''invalid x-api-key'')))
          (chat_prompt (lit ''list files''))) = Inr None \<and>
   Err (AnthropicStatusError 401 (lit ''invalid x-api-key'')) \<in>
     set (fst (call_anthropic_api (anthropic_config True)
          (answering (APIStatusError 401 (lit ''invalid x-api-key''))) (chat_prompt (lit ''list files'')))) \<and>
   Err CheckKeyHint \<in>
     set (fst (call_anthropic_api (anthropic_config True)
          (answering (APIStatusError 401 (lit ''invalid x-api-key''))) (chat_prompt (lit ''list files'')))) \<and>
   length (filter is_call (fst (call_anthropic_api (anthropic_config True)
          (answering (APIStatusError 401 (lit ''invalid x-api-key''))) (chat_prompt (lit ''list files''))))) = 1 \<and>
   filter is_backoff (fst (call_anthropic_api (anthropic_config True)
          (answering (APIStatusError 401 (lit ''invalid x-api-key''))) (chat_prompt (lit ''list files'')))) = []"
proof -
  have a: "py_get (anthropic_config True) (lit ''anthropic'') =
             Some (YDict [(YStr (lit ''api_key''), YStr (lit ''sk-test''))])"
    by (simp add: anthropic_config_def py_get_def lit_def)
  have b: "py_get [(YStr (lit ''api_key''), YStr (lit ''sk-test''))] (lit ''api_key'') =
             Some (YStr (lit ''sk-test''))"
    by (simp add: py_get_def)
  have c: "truthy (YStr (lit ''sk-test''))" by (simp add: lit_def)
  have d: "\<And>r. api (answering (APIStatusError 401 (lit ''invalid x-api-key''))) r =
             Sends (\<lambda>n. ErrorStatus 401 None (lit ''invalid x-api-key''))"
    by (simp add: answering_def)
  have e: "\<And>r. snd (create (answering (APIStatusError 401 (lit ''invalid x-api-key''))) r) =
             APIStatusError 401 (lit ''invalid x-api-key'')"
    by simp
  have f: "is_failure (APIStatusError 401 (lit ''invalid x-api-key''))" by simp
  show ?thesis
    using anthropic_failure_attempts [OF a b c d e f, of "chat_prompt (lit ''list files'')"]
    by (auto simp: should_retry_def)
qed

text \<open>
  C8 as stated fails: when the provider answers every attempt with status 500, one call
  of \<open>call_anthropic_api\<close> sends three requests, with two pauses of the client between
  them, not exactly one.
\<close>

theorem anthropic_retries_counterexample:
  "length (filter is_call (fst (call_anthropic_api (anthropic_config True)
          (answering (APIStatusError 500 (lit ''Overloaded''))) (chat_prompt (lit ''list files''))))) = 3 \<and>
   length (filter is_backoff (fst (call_anthropic_api (anthropic_config True)
          (answering (APIStatusError 500 (lit ''Overloaded''))) (chat_prompt (lit ''list files''))))) = 2 \<and>
   length (filter is_call (fst (call_anthropic_api (anthropic_config True)
          (answering (APIStatusError 500 (lit ''Overloaded''))) (chat_prompt (lit ''list files''))))) \<noteq> 1"
  by (simp add: call_anthropic_api_def anthropic_config_def dict_get_def py_get_def lit_def Let_def
      create_def answering_def max_retries_def numeral_2_eq_2 should_retry_def raised_def debug_def)

lemma call_ai_api_unknown:
  assumes "py_get cfg (lit ''api_provider'') = Some p"
    and "p \<noteq> YStr (lit ''anthropic'')" and "p \<noteq> YStr (lit ''openai'')"
  shows "call_ai_api cfg w prompt =
           (Dispatched prompt # debug cfg (UsingProvider p) @ [Err (UnknownProvider p)], Inr None)"
  using assms by (simp add: call_ai_api_def dict_get_def Let_def)

text \<open>
  C6. When \<open>api_provider\<close> is configured as anything but \<open>anthropic\<close> or \<open>openai\<close>, the
  dispatcher prints the unknown-provider error, returns \<open>None\<close> and sends no request; the
  handlers that call it, \<open>handle_chat\<close> and \<open>handle_fix_error\<close>, print nothing on
  standard output (and send no request).
\<close>

theorem unknown_provider_no_call:
  assumes "py_get cfg (lit ''api_provider'') = Some p"
    and "p \<noteq> YStr (lit ''anthropic'')" and "p \<noteq> YStr (lit ''openai'')"
  shows "snd (call_ai_api cfg w prompt) = Inr None \<and>
         Err (UnknownProvider p) \<in> set (fst (call_ai_api cfg w prompt)) \<and>
         filter is_call (fst (call_ai_api cfg w prompt)) = [] \<and>
         silent (fst (handle_chat cfg w args)) \<and>
         silent (fst (handle_fix_error cfg w cmd code is_automatic))"
proof -
  note u = call_ai_api_unknown [OF assms]
  have "silent (fst (handle_chat cfg w args))"
    by (cases "query args")
      (simp_all add: handle_chat_def silent_def Let_def u show_response_def)
  moreover have "silent (fst (handle_fix_error cfg w cmd code is_automatic))"
    by (simp add: handle_fix_error_def silent_def Let_def u show_response_def)
  ultimately show ?thesis by (simp add: u)
qed

text \<open>
  The provider \<open>gemini\<close>.
\<close>

theorem unknown_provider_no_call_witness:
  "snd (call_ai_api gemini_config (answering (Message (Blocks []))) (chat_prompt (lit ''hi''))) = Inr None \<and>
   Err (UnknownProvider (YStr (lit ''gemini''))) \<in>
     set (fst (call_ai_api gemini_config (answering (Message (Blocks []))) (chat_prompt (lit ''hi'')))) \<and>
   silent (fst (handle_chat gemini_config (answering (Message (Blocks []))) (chat_args [lit ''hi''])))"
proof -
  have a: "py_get gemini_config (lit ''api_provider'') = Some (YStr (lit ''gemini''))"
    by (simp add: gemini_config_def py_get_def)
  have b: "YStr (lit ''gemini'') \<noteq> YStr (lit ''anthropic'')" by (simp add: lit_def)
  have c: "YStr (lit ''gemini'') \<noteq> YStr (lit ''openai'')" by (simp add: lit_def)
  show ?thesis
    using unknown_provider_no_call [OF a b c, of "answering (Message (Blocks []))"
        "chat_prompt (lit ''hi'')" "chat_args [lit ''hi'']"]
    by simp
qed


text \<open>
  C5. When the parsed command is \<open>chat\<close> and the query words join to the empty string,
  \<open>main\<close> prints the error, leaves with \<open>sys.exit(1)\<close>, and the dispatcher is never entered
  (so no request is sent either).
\<close>

theorem chat_empty_query_exits:
  assumes "parse_args (effective_argv argv) = Parsed args"
    and "command args = Some (lit ''chat'')"
    and "query args = Some qs" and "py_join qs = []"
  shows "main parse_args cfg w argv = ([Err ChatNeedsQuestion], Some (SystemExit 1)) \<and>
         exit_status (snd (main parse_args cfg w argv)) = 1 \<and>
         filter is_dispatch (fst (main parse_args cfg w argv)) = [] \<and>
         filter is_call (fst (main parse_args cfg w argv)) = []"
  using assms by (simp add: main_def execute_command_def handle_chat_def Let_def)

text \<open>
  \<open>ai chat ""\<close>: one empty word.
\<close>

theorem chat_empty_query_exits_witness:
  "py_join [[]] = [] \<and>
   main (\<lambda>a. Parsed (chat_args [[]])) (anthropic_config True) (answering (Message (Blocks [])))
     [lit ''chat'', []] = ([Err ChatNeedsQuestion], Some (SystemExit 1))"
proof -
  have a: "(\<lambda>a. Parsed (chat_args [[]])) (effective_argv [lit ''chat'', []]) = Parsed (chat_args [[]])"
    by simp
  have b: "command (chat_args [[]]) = Some (lit ''chat'')" by (simp add: chat_args_def)
  have c: "query (chat_args [[]]) = Some [[]]" by (simp add: chat_args_def)
  have d: "py_join [[]] = []" by simp
  show ?thesis
    using chat_empty_query_exits [of "\<lambda>a. Parsed (chat_args [[]])", OF a b c d] by simp
qed

section \<open>The hook command with automatic fixing disabled\<close>

lemma effective_argv_hook [simp]: "effective_argv (hook_argv c e) = hook_argv c e"
  by (simp add: effective_argv_def hook_argv_def known_commands_def)

lemma handle_fix_error_disabled:
  assumes "\<not> truthy (dict_get cfg (lit ''auto_fix_errors'') (YBool False))"
  shows "silent (fst (handle_fix_error cfg w c e True)) \<and> snd (handle_fix_error cfg w c e True) = None"
  using assms by (simp add: handle_fix_error_def silent_def Let_def)

text \<open>
  C2. With \<open>auto_fix_errors\<close> false (or missing, or any value Python takes as false), the
  automatic \<open>handle_fix_error\<close> prints nothing on standard output and sends no request, for
  every command and exit code; and so does \<open>main\<close> on the hook's arguments whenever the
  parser hands it the subcommand \<open>--internal-fix-error\<close> with an exit code. The whole
  script on the hook's arguments is silent as well, whatever the configuration file.
\<close>

theorem auto_fix_disabled_is_silent:
  assumes "\<not> truthy (dict_get cfg (lit ''auto_fix_errors'') (YBool False))"
  shows "silent (fst (handle_fix_error cfg w c e True)) \<and>
         snd (handle_fix_error cfg w c e True) = None \<and>
         (parse_args (hook_argv c e) = Parsed args \<and>
          command args = Some (lit ''--internal-fix-error'') \<and> exit_code args = Some e' \<longrightarrow>
            silent (fst (main parse_args cfg w (hook_argv c e))) \<and>
            snd (main parse_args cfg w (hook_argv c e)) = None) \<and>
         silent (fst (script parse_args f w (hook_argv c e)))"
proof -
  have "silent (fst (script parse_args f w (hook_argv c e)))"
    by (simp add: script_def startup_def load_config_def print_debug_def silent_def)
  moreover
  have "main parse_args cfg w (hook_argv c e) =
          handle_fix_error cfg w (lit ''--internal-fix-error'') e' True"
    if "parse_args (hook_argv c e) = Parsed args"
      and "command args = Some (lit ''--internal-fix-error'')" and "exit_code args = Some e'"
    using that by (simp add: main_def execute_command_def lit_def)
  ultimately show ?thesis
    using handle_fix_error_disabled [OF assms] by auto
qed

text \<open>
  \<open>auto_fix_errors: false\<close>, the command \<open>gti status\<close>, exit code 127: no event at all.
\<close>

theorem auto_fix_disabled_is_silent_witness:
  "silent (fst (handle_fix_error (anthropic_config False) (answering (Message (Blocks [])))
                  (lit ''gti status'') (lit ''127'') True)) \<and>
   main (\<lambda>a. Parsed (hook_args (lit ''127''))) (anthropic_config False)
     (answering (Message (Blocks []))) (hook_argv (lit ''gti status'') (lit ''127'')) = ([], None)"
proof -
  have a: "\<not> truthy (dict_get (anthropic_config False) (lit ''auto_fix_errors'') (YBool False))"
    by (simp add: anthropic_config_def dict_get_def py_get_def lit_def)
  have b: "fst (main (\<lambda>a. Parsed (hook_args (lit ''127''))) (anthropic_config False)
     (answering (Message (Blocks []))) (hook_argv (lit ''gti status'') (lit ''127''))) = []"
    by (simp add: main_def execute_command_def hook_args_def handle_fix_error_def Let_def
        anthropic_config_def dict_get_def py_get_def debug_def lit_def)
  show ?thesis
    using auto_fix_disabled_is_silent [OF a, of "answering (Message (Blocks []))" "lit ''gti status''"
        "lit ''127''" "\<lambda>a. Parsed (hook_args (lit ''127''))" "hook_args (lit ''127'')" "lit ''127''"] b
    by (simp add: hook_args_def prod_eq_iff)
qed

section \<open>What the configuration loader returns\<close>

text \<open>The validation accepts exactly the mappings that satisfy the invariant.\<close>

lemma key_check:
  "(case k of
      YStr key \<Rightarrow>
        if py_startswith key (lit ''YOUR_'') \<or> key = [] then Inl (ValueError (KeyPlaceholder p))
        else Inr kvs
    | _ \<Rightarrow> Inl AttributeError) = Inr cfg \<longleftrightarrow>
   kvs = cfg \<and> (case k of YStr key \<Rightarrow> key \<noteq> [] \<and> \<not> py_startswith key (lit ''YOUR_'') | _ \<Rightarrow> False)"
  by (cases k) auto

lemma block_check:
  "(case v of
      YDict blk \<Rightarrow>
        (case py_get blk (lit ''api_key'') of
           None \<Rightarrow> Inl (ValueError KeyMissing)
         | Some k \<Rightarrow>
             if \<not> truthy k then Inl (ValueError KeyMissing)
             else
               (case k of
                  YStr key \<Rightarrow>
                    if py_startswith key (lit ''YOUR_'') \<or> key = []
                    then Inl (ValueError (KeyPlaceholder p))
                    else Inr kvs
                | _ \<Rightarrow> Inl AttributeError))
    | _ \<Rightarrow> Inl AttributeError) = Inr cfg \<longleftrightarrow>
   kvs = cfg \<and>
   (case v of
      YDict blk \<Rightarrow>
        (case py_get blk (lit ''api_key'') of
           Some (YStr key) \<Rightarrow> key \<noteq> [] \<and> \<not> py_startswith key (lit ''YOUR_'')
         | _ \<Rightarrow> False)
    | _ \<Rightarrow> False)"
proof (cases v)
  case (YDict blk)
  show ?thesis
  proof (cases "py_get blk (lit ''api_key'')")
    case None
    with YDict show ?thesis by simp
  next
    case (Some k)
    with YDict key_check [where k = k and p = p and kvs = kvs and cfg = cfg] show ?thesis
      by (cases k) auto
  qed
qed simp_all

lemma validate_iff: "validate y = Inr cfg \<longleftrightarrow> y = YDict cfg \<and> config_ok cfg"
proof (cases y)
  case (YDict kvs)
  show ?thesis
  proof (cases "py_get kvs (lit ''api_provider'')")
    case None
    with YDict show ?thesis by (auto simp: validate_def config_ok_def)
  next
    case (Some p)
    show ?thesis
    proof (cases "truthy p \<and> hashable p")
      case False
      with YDict Some show ?thesis
        by (auto simp: validate_def config_ok_def provider_block_def)
    next
      case True
      show ?thesis
      proof (cases "py_lookup kvs p")
        case None
        with YDict Some True show ?thesis
          by (auto simp: validate_def config_ok_def provider_block_def py_get_def)
      next
        case found: (Some v)
        have "validate y = Inr cfg \<longleftrightarrow>
              kvs = cfg \<and>
              (case v of
                 YDict blk \<Rightarrow>
                   (case py_get blk (lit ''api_key'') of
                      Some (YStr key) \<Rightarrow> key \<noteq> [] \<and> \<not> py_startswith key (lit ''YOUR_'')
                    | _ \<Rightarrow> False)
               | _ \<Rightarrow> False)"
          using YDict Some True found
            block_check [where v = v and p = p and kvs = kvs and cfg = cfg]
          by (simp add: validate_def provider_block_def)
        with YDict Some True found show ?thesis
          by (auto simp: config_ok_def)
      qed
    qed
  qed
qed (simp_all add: validate_def)


lemma validate_cases:
  "(\<exists>cfg. validate y = Inr cfg) \<or> validate y = Inl AttributeError \<or> validate y = Inl TypeError \<or>
   (\<exists>v. validate y = Inl (ValueError v))"
proof (cases y)
  case (YDict kvs)
  show ?thesis
  proof (cases "py_get kvs (lit ''api_provider'')")
    case None
    with YDict show ?thesis by (simp add: validate_def)
  next
    case (Some p)
    show ?thesis
    proof (cases "truthy p \<and> hashable p")
      case False
      with YDict Some show ?thesis by (auto simp: validate_def provider_block_def)
    next
      case True
      define v where "v = (case py_lookup kvs p of None \<Rightarrow> YDict [] | Some v \<Rightarrow> v)"
      have pb: "provider_block kvs p = Inr v"
        using True by (simp add: provider_block_def v_def)
      show ?thesis
      proof (cases v)
        case blk: (YDict blk)
        show ?thesis
        proof (cases "py_get blk (lit ''api_key'')")
          case None
          with YDict Some True pb blk show ?thesis by (simp add: validate_def)
        next
          case key: (Some k)
          with YDict Some True pb blk show ?thesis
            by (cases k) (simp_all add: validate_def)
        qed
      qed (simp_all add: YDict Some True pb validate_def)
    qed
  qed
qed (simp_all add: validate_def)

lemma config_at_unassigned:
  "filter is_assigned es = [] \<Longrightarrow> config_at g (take n es) = g"
proof (induction es arbitrary: n)
  case Nil
  show ?case by simp
next
  case (Cons e es)
  then show ?case by (cases n; cases e) (simp_all split: if_splits)
qed

lemma send_unassigned [simp]:
  "filter is_assigned (fst (send_with_retries t req taken remaining)) = []"
  by (induction remaining arbitrary: taken) (simp_all add: split_beta)

lemma debug_unassigned [simp]: "filter is_assigned (debug cfg m) = []"
  by (simp add: debug_def)

lemma print_lines_unassigned [simp]: "filter is_assigned (print_lines ls) = []"
  by (induction ls) (simp_all add: print_out_def)

lemma show_response_unassigned [simp]: "filter is_assigned (show_response r t) = []"
  by (simp add: show_response_def format_ai_response_def print_out_def split: option.splits)

lemma extract_text_unassigned [simp]: "filter is_assigned (fst (extract_text cfg c)) = []"
  by (simp add: extract_text_def split: content.splits list.splits block.splits option.splits)

lemma create_unassigned [simp]: "filter is_assigned (fst (create w req)) = []"
  by (simp add: create_def split: client_behaviour.splits)

lemma call_anthropic_api_unassigned [simp]:
  "filter is_assigned (fst (call_anthropic_api cfg w p)) = []"
  by (simp add: call_anthropic_api_def Let_def split_beta
      split: yaml.splits option.splits api_outcome.splits sum.splits)

lemma call_ai_api_unassigned [simp]: "filter is_assigned (fst (call_ai_api cfg w p)) = []"
  by (simp add: call_ai_api_def Let_def split_beta)

lemma handle_chat_unassigned [simp]: "filter is_assigned (fst (handle_chat cfg w args)) = []"
  by (simp add: handle_chat_def Let_def split_beta split: option.splits sum.splits)

lemma handle_fix_error_unassigned [simp]:
  "filter is_assigned (fst (handle_fix_error cfg w c e a)) = []"
  by (simp add: handle_fix_error_def Let_def split_beta split: sum.splits)

lemma manual_fix_unassigned [simp]: "filter is_assigned (fst (manual_fix cfg w)) = []"
proof (cases "history w")
  case None
  then show ?thesis by (simp add: manual_fix_def)
next
  case (Some out)
  obtain es r where h: "handle_fix_error cfg w (py_strip out) (lit ''unknown'') False = (es, r)"
    by (cases "handle_fix_error cfg w (py_strip out) (lit ''unknown'') False")
  with handle_fix_error_unassigned [of cfg w "py_strip out" "lit ''unknown''" False]
  have "filter is_assigned es = []" by simp
  with Some h show ?thesis
    by (simp add: manual_fix_def Let_def split: option.splits exc.splits)
qed

lemma main_unassigned: "filter is_assigned (fst (main parse_args cfg w argv)) = []"
proof -
  have n: "filter is_assigned (fst (no_command a)) = []" for a
    by (simp add: no_command_def split: list.splits)
  have e: "filter is_assigned (fst (execute_command cfg w args)) = []" for args
    by (simp add: execute_command_def handle_build_def print_out_def split: option.splits)
  show ?thesis
    using n [of "effective_argv argv"] e
    by (simp add: main_def Let_def split_beta split: parse_outcome.splits option.splits)
qed

text \<open>
  C10. Whatever \<open>load_config\<close> returns is the mapping of the file and satisfies the
  invariant \<open>config_ok\<close>: \<open>api_provider\<close> has a value that is not empty, the mapping has a
  block under that value as its key, and in it an \<open>api_key\<close> that is a non-empty string not
  starting with \<open>YOUR_\<close>. And a run of \<open>main\<close> with the loaded configuration never writes
  to \<open>CONFIG\<close>: after any number of its events the global still holds the loaded mapping,
  so the invariant holds to the end of the process.
\<close>

theorem load_config_returns_ok:
  assumes "load_config CONFIG f = (es, Inr cfg)"
  shows "f = Doc (YDict cfg) \<and> config_ok cfg \<and>
         config_at (Some cfg) (take n (fst (main parse_args cfg w argv))) = Some cfg"
proof -
  from assms obtain c where c: "CONFIG = Some c"
    by (cases CONFIG) (simp_all add: load_config_def print_debug_def)
  from assms c obtain y where y: "f = Doc y"
    by (cases f) (simp_all add: load_config_def load_body_def print_debug_def)
  from assms c y have "validate y = Inr cfg"
    by (simp add: load_config_def load_body_def print_debug_def split: sum.splits exc.splits)
  with y show ?thesis
    by (simp add: validate_iff config_at_unassigned [OF main_unassigned])
qed

text \<open>
  Two calls that return (with \<open>CONFIG\<close> bound, here to an empty mapping): the provider
  named by a string, and the provider named by the number 5.
\<close>

theorem load_config_returns_ok_witness:
  "load_config (Some []) (Doc (YDict (anthropic_config True))) = ([], Inr (anthropic_config True)) \<and>
   config_ok (anthropic_config True) \<and>
   load_config (Some []) (Doc (YDict numbered_config)) = ([], Inr numbered_config) \<and>
   config_ok numbered_config"
proof -
  have a: "load_config (Some []) (Doc (YDict (anthropic_config True))) = ([], Inr (anthropic_config True))"
    by (simp add: load_config_def load_body_def print_debug_def debug_def dict_get_def py_get_def
        validate_def provider_block_def anthropic_config_def py_startswith_def lit_def)
  have b: "load_config (Some []) (Doc (YDict numbered_config)) = ([], Inr numbered_config)"
    by (simp add: load_config_def load_body_def print_debug_def debug_def dict_get_def py_get_def
        validate_def provider_block_def numbered_config_def py_startswith_def key_eq_def lit_def)
  show ?thesis
    using a b load_config_returns_ok [OF a] load_config_returns_ok [OF b] by simp
qed

text \<open>
  C4, on the code. The module calls \<open>load_config\<close> while \<open>CONFIG\<close> is not bound, and the
  first statement of \<open>load_config\<close> is a \<open>print_debug\<close>, which reads \<open>CONFIG\<close>: for every
  configuration file the call raises \<open>NameError\<close> before the file is looked at. The module
  level catches \<open>SystemExit\<close> only, so the script ends there with no message of its own,
  no request, and exit status 1 (the interpreter's traceback).
\<close>

theorem script_stops_at_startup:
  "load_config None f = ([], Inl NameError) \<and> script parse_args f w argv = ([], Some NameError) \<and>
   exit_status (snd (script parse_args f w argv)) = 1"
  by (simp add: script_def startup_def load_config_def print_debug_def)

text \<open>
  What the loader does for a file that is absent, unreadable, not YAML, or whose mapping
  breaks the invariant, once \<open>CONFIG\<close> is bound: an error message, \<open>sys.exit(1)\<close>, no
  request.
\<close>

lemma load_config_bound_rejects:
  assumes "\<And>cfg. f = Doc (YDict cfg) \<Longrightarrow> \<not> config_ok cfg"
  shows "snd (load_config (Some c) f) = Inl (SystemExit 1) \<and>
         (\<exists>m. Err m \<in> set (fst (load_config (Some c) f))) \<and>
         filter is_call (fst (load_config (Some c) f)) = []"
proof (cases f)
  case (Doc y)
  with assms have "validate y \<noteq> Inr cfg" for cfg
    by (auto simp: validate_iff)
  with validate_cases [of y] have
    "validate y = Inl AttributeError \<or> validate y = Inl TypeError \<or> (\<exists>v. validate y = Inl (ValueError v))"
    by blast
  with Doc show ?thesis
    by (auto simp: load_config_def load_body_def print_debug_def debug_def)
qed (auto simp: load_config_def load_body_def print_debug_def debug_def)


lemma load_config_fails_with:
  "(\<exists>cfg. snd (load_config CONFIG f) = Inr cfg) \<or> snd (load_config CONFIG f) = Inl NameError \<or>
   snd (load_config CONFIG f) = Inl (SystemExit 1)"
proof (cases CONFIG)
  case None
  then show ?thesis by (simp add: load_config_def print_debug_def)
next
  case (Some c)
  show ?thesis
  proof (cases f)
    case (Doc y)
    with Some validate_cases [of y] show ?thesis
      by (auto simp: load_config_def load_body_def print_debug_def)
  qed (simp_all add: Some load_config_def load_body_def print_debug_def)
qed

text \<open>When the loader does not return, the exit status is 1, bound \<open>CONFIG\<close> or not.\<close>

lemma load_config_failure_status:
  "(case snd (load_config CONFIG f) of Inl e \<Rightarrow> exit_status (Some e) | Inr c \<Rightarrow> 1) = 1"
  using load_config_fails_with [of CONFIG f] by auto

section \<open>The exit status\<close>

lemma call_ai_api_returns:
  assumes "config_ok cfg"
  shows "\<exists>r. snd (call_ai_api cfg w p) = Inr r"
proof (cases "dict_get cfg (lit ''api_provider'') (YStr (lit ''anthropic'')) = YStr (lit ''anthropic'')")
  case True
  with assms obtain blk where "py_get cfg (lit ''anthropic'') = Some (YDict blk)"
    by (auto simp: config_ok_def dict_get_def py_get_def split: option.splits yaml.splits)
  then have "\<exists>r. snd (call_anthropic_api cfg w p) = Inr r"
    by (auto simp: call_anthropic_api_def dict_get_def Let_def
        split: option.splits api_outcome.splits prod.splits sum.splits)
  with True show ?thesis
    by (auto simp: call_ai_api_def Let_def split: prod.splits)
next
  case False
  then show ?thesis by (simp add: call_ai_api_def Let_def)
qed

lemma handle_fix_error_returns:
  assumes "config_ok cfg"
  shows "snd (handle_fix_error cfg w c e a) = None"
  using call_ai_api_returns [OF assms, of w "fix_prompt c e"]
  by (auto simp: handle_fix_error_def Let_def split: prod.splits sum.splits)

lemma manual_fix_returns:
  assumes "config_ok cfg"
  shows "snd (manual_fix cfg w) = None"
proof (cases "history w")
  case None
  then show ?thesis by (simp add: manual_fix_def)
next
  case (Some out)
  obtain es where "handle_fix_error cfg w (py_strip out) (lit ''unknown'') False = (es, None)"
    using handle_fix_error_returns [OF assms, of w "py_strip out" "lit ''unknown''" False]
    by (cases "handle_fix_error cfg w (py_strip out) (lit ''unknown'') False") simp
  with Some show ?thesis by (simp add: manual_fix_def Let_def)
qed

lemma handle_chat_status:
  assumes "config_ok cfg"
  shows "exit_status (snd (handle_chat cfg w args)) =
           (case query args of None \<Rightarrow> 1 | Some qs \<Rightarrow> if py_join qs = [] then 1 else 0)"
proof (cases "query args")
  case None
  then show ?thesis by (simp add: handle_chat_def)
next
  case (Some qs)
  with call_ai_api_returns [OF assms, of w "chat_prompt (py_join qs)"] show ?thesis
    by (auto simp: handle_chat_def Let_def split: prod.splits sum.splits)
qed

lemma no_command_status: "exit_status (snd (no_command argv)) = 1"
  by (simp add: no_command_def split: list.splits)

lemma main_status:
  assumes "config_ok cfg"
  shows "exit_status (snd (main parse_args cfg w argv)) =
           (case parse_args (effective_argv argv) of
              Parsed args \<Rightarrow>
                (if command args = None then 1
                 else if command args = Some (lit ''chat'') then
                   (case query args of None \<Rightarrow> 1 | Some qs \<Rightarrow> if py_join qs = [] then 1 else 0)
                 else if command args = Some (lit ''--internal-fix-error'') \<and> exit_code args = None
                 then 1
                 else 0)
            | _ \<Rightarrow> 1)"
proof (cases "parse_args (effective_argv argv)")
  case (Parsed args)
  show ?thesis
  proof (cases "command args")
    case None
    with Parsed show ?thesis by (simp add: main_def no_command_status)
  next
    case (Some c)
    have "exit_status (snd (execute_command cfg w args)) =
            (if command args = Some (lit ''chat'') then
               (case query args of None \<Rightarrow> 1 | Some qs \<Rightarrow> if py_join qs = [] then 1 else 0)
             else if command args = Some (lit ''--internal-fix-error'') \<and> exit_code args = None
             then 1
             else 0)"
      using handle_chat_status [OF assms, of w args] manual_fix_returns [OF assms, of w]
        handle_fix_error_returns [OF assms, of w]
      by (auto simp: execute_command_def handle_build_def lit_def split: option.splits)
    with Parsed Some show ?thesis by (simp add: main_def)
  qed
next
  case HelpExit
  then show ?thesis
    using no_command_status [of "effective_argv argv"]
    by (cases "no_command (effective_argv argv)") (simp add: main_def)
next
  case ErrorExit
  then show ?thesis
    using no_command_status [of "effective_argv argv"]
    by (cases "no_command (effective_argv argv)") (simp add: main_def)
next
  case ParserRaised
  then show ?thesis by (simp add: main_def)
qed

lemma usage_printed:
  assumes "asks_usage argv"
    and "parse_args (effective_argv argv) = HelpExit \<or>
         (\<exists>args. parse_args (effective_argv argv) = Parsed args \<and> command args = None)"
  shows "Usage \<in> set (fst (main parse_args cfg w argv)) \<and>
         snd (main parse_args cfg w argv) = Some (SystemExit 1)"
proof -
  from assms(1) have e: "effective_argv argv = argv"
    by (auto simp: asks_usage_def effective_argv_def py_startswith_def lit_def split: list.splits)
  from assms(1) have n: "no_command argv = ([Usage], Some (SystemExit 1))"
    by (auto simp: asks_usage_def no_command_def split: list.splits)
  from assms(2) e n show ?thesis
    by (auto simp: main_def)
qed

text \<open>
  C7, as the code has it. A configuration that fails to load ends the process with status
  1. With a loaded configuration, \<open>main\<close> ends with status 1 when
  the parser raised (a parse error, but also a help request, whose \<open>SystemExit(0)\<close> is
  caught and dropped) or produced no command (no argument at all), when \<open>chat\<close> has an
  empty query, and when a handler reads an attribute the namespace lacks; otherwise the
  status is 0. An invocation with no argument, or with \<open>-h\<close> or \<open>--help\<close>, for which the
  parser exits with the help or returns no command, prints the usage and ends with
  \<open>sys.exit(1)\<close>.
\<close>

theorem main_exit_status:
  assumes "config_ok cfg"
  shows "(case snd (load_config CONFIG f) of Inl e \<Rightarrow> exit_status (Some e) | Inr c \<Rightarrow> 1) = 1 \<and>
         exit_status (snd (main parse_args cfg w argv)) =
           (case parse_args (effective_argv argv) of
              Parsed args \<Rightarrow>
                (if command args = None then 1
                 else if command args = Some (lit ''chat'') then
                   (case query args of None \<Rightarrow> 1 | Some qs \<Rightarrow> if py_join qs = [] then 1 else 0)
                 else if command args = Some (lit ''--internal-fix-error'') \<and> exit_code args = None
                 then 1
                 else 0)
            | _ \<Rightarrow> 1) \<and>
         (asks_usage argv \<and>
          (parse_args (effective_argv argv) = HelpExit \<or>
           (\<exists>args. parse_args (effective_argv argv) = Parsed args \<and> command args = None)) \<longrightarrow>
            Usage \<in> set (fst (main parse_args cfg w argv)) \<and>
            snd (main parse_args cfg w argv) = Some (SystemExit 1))"
  using main_status [OF assms] load_config_failure_status usage_printed by simp

lemma config_ok_anthropic [simp]: "config_ok (anthropic_config b)"
  by (simp add: config_ok_def anthropic_config_def py_get_def py_startswith_def lit_def)

text \<open>
  A chat with a query ends with 0, an unknown option with 1, and no argument at all prints
  the usage.
\<close>

theorem main_exit_status_witness:
  "config_ok (anthropic_config True) \<and>
   exit_status (snd (main (\<lambda>a. Parsed (chat_args [lit ''list'', lit ''files'']))
     (anthropic_config True) (answering (Message (Blocks []))) [lit ''list'', lit ''files''])) = 0 \<and>
   exit_status (snd (main (\<lambda>a. ErrorExit)
     (anthropic_config True) (answering (Message (Blocks []))) [lit ''--frobnicate''])) = 1 \<and>
   asks_usage [] \<and>
   Usage \<in> set (fst (main (\<lambda>a. Parsed \<lparr>command = None, query = None, exit_code = None\<rparr>)
     (anthropic_config True) (answering (Message (Blocks []))) []))"
proof -
  have a: "config_ok (anthropic_config True)" by simp
  have u: "asks_usage []" by (simp add: asks_usage_def)
  have "Usage \<in> set (fst (main (\<lambda>a. Parsed \<lparr>command = None, query = None, exit_code = None\<rparr>)
     (anthropic_config True) (answering (Message (Blocks []))) []))"
    using u main_exit_status [OF a, of None NoFile
        "\<lambda>a. Parsed \<lparr>command = None, query = None, exit_code = None\<rparr>"
        "answering (Message (Blocks []))" "[]"]
    by simp
  then show ?thesis
    using a main_exit_status [OF a, of None NoFile "\<lambda>a. Parsed (chat_args [lit ''list'', lit ''files''])"
        "answering (Message (Blocks []))" "[lit ''list'', lit ''files'']"]
      main_exit_status [OF a, of None NoFile "\<lambda>a. ErrorExit" "answering (Message (Blocks []))"
        "[lit ''--frobnicate'']"]
    by (simp add: chat_args_def lit_def u)
qed

text \<open>
  C7 as stated fails: on \<open>-h\<close>, \<open>argparse\<close> prints the usage and raises
  \<open>SystemExit(0)\<close>; \<open>main\<close> catches it, prints the usage again and leaves with status 1.
\<close>

theorem help_exit_status_counterexample:
  "main (\<lambda>a. HelpExit) (anthropic_config True) (answering (Message (Blocks []))) [lit ''-h''] =
     ([Usage, Usage], Some (SystemExit 1)) \<and>
   exit_status (snd (main (\<lambda>a. HelpExit) (anthropic_config True) (answering (Message (Blocks [])))
     [lit ''-h''])) \<noteq> 0"
  by (simp add: main_def effective_argv_def known_commands_def py_startswith_def no_command_def lit_def)

section \<open>The prompts a run can send\<close>

lemma prompts_append [simp]: "prompts (xs @ ys) = prompts xs @ prompts ys"
  by (induction xs rule: prompts.induct) simp_all

lemma prompts_debug [simp]: "prompts (debug cfg m) = []"
  by (simp add: debug_def)

lemma prompts_print_lines [simp]: "prompts (print_lines ls) = []"
  by (induction ls) (simp_all add: print_out_def)

lemma prompts_show_response [simp]: "prompts (show_response r t) = []"
  by (simp add: show_response_def format_ai_response_def print_out_def split: option.splits)

lemma prompts_extract_text: "extract_text cfg c = (d, r) \<Longrightarrow> prompts d = []"
  by (auto simp: extract_text_def split: content.splits list.splits block.splits if_splits option.splits)

lemma prompts_send:
  "set (prompts (fst (send_with_retries t req taken remaining))) \<subseteq> {user_prompt req}"
  by (induction remaining arbitrary: taken) (auto simp: split_beta)

lemma prompts_create: "set (prompts (fst (create w req))) \<subseteq> {user_prompt req}"
  using prompts_send by (auto simp: create_def split: client_behaviour.splits)

lemma prompts_call_anthropic_api: "set (prompts (fst (call_anthropic_api cfg w p))) \<subseteq> {p}"
proof -
  have "x = p" if "x \<in> set (prompts (fst (create w req)))" and "user_prompt req = p" for x req
    using that prompts_create [of w req] by auto
  then show ?thesis
    by (auto simp: call_anthropic_api_def Let_def prompts_extract_text
        split: yaml.splits option.splits api_outcome.splits prod.splits sum.splits if_splits)
qed

lemma prompts_call_ai_api: "set (prompts (fst (call_ai_api cfg w p))) \<subseteq> {p}"
  using prompts_call_anthropic_api [of cfg w p]
  by (auto simp: call_ai_api_def Let_def split: prod.splits)

lemma prompts_handle_chat:
  assumes "x \<in> set (prompts (fst (handle_chat cfg w args)))"
  shows "\<exists>q. x = chat_prompt q"
proof (cases "query args")
  case None
  with assms show ?thesis by (simp add: handle_chat_def)
next
  case (Some qs)
  with assms have "x \<in> set (prompts (fst (call_ai_api cfg w (chat_prompt (py_join qs)))))"
    by (auto simp: handle_chat_def Let_def split: prod.splits sum.splits if_splits)
  with prompts_call_ai_api [of cfg w "chat_prompt (py_join qs)"] show ?thesis by auto
qed

lemma prompts_handle_fix_error:
  assumes "x \<in> set (prompts (fst (handle_fix_error cfg w c e a)))"
  shows "x = fix_prompt c e"
proof -
  from assms have "x \<in> set (prompts (fst (call_ai_api cfg w (fix_prompt c e))))"
    by (auto simp: handle_fix_error_def Let_def split: prod.splits sum.splits if_splits)
  with prompts_call_ai_api [of cfg w "fix_prompt c e"] show ?thesis by auto
qed

lemma prompts_manual_fix:
  assumes "x \<in> set (prompts (fst (manual_fix cfg w)))"
  shows "\<exists>c. x = fix_prompt c (lit ''unknown'')"
proof (cases "history w")
  case None
  with assms show ?thesis by (simp add: manual_fix_def)
next
  case (Some out)
  with assms have "x \<in> set (prompts (fst (handle_fix_error cfg w (py_strip out) (lit ''unknown'') False)))"
    by (auto simp: manual_fix_def Let_def split: option.splits prod.splits exc.splits)
  then show ?thesis using prompts_handle_fix_error by blast
qed

lemma prompts_execute_command:
  assumes "x \<in> set (prompts (fst (execute_command cfg w args)))"
  shows "(\<exists>q. x = chat_prompt q) \<or> (\<exists>c. x = fix_prompt c (lit ''unknown'')) \<or>
         (\<exists>e. x = fix_prompt (lit ''--internal-fix-error'') e)"
  using assms prompts_handle_chat [of x cfg w args] prompts_manual_fix [of x cfg w]
    prompts_handle_fix_error [of x cfg w "lit ''--internal-fix-error''" _ True]
  by (auto simp: execute_command_def handle_build_def print_out_def split: if_splits option.splits)

lemma prompts_no_command [simp]: "prompts (fst (no_command argv)) = []"
  by (simp add: no_command_def split: list.splits)

lemma prompts_main:
  assumes "x \<in> set (prompts (fst (main parse_args cfg w argv)))"
  shows "(\<exists>q. x = chat_prompt q) \<or> (\<exists>c. x = fix_prompt c (lit ''unknown'')) \<or>
         (\<exists>e. x = fix_prompt (lit ''--internal-fix-error'') e)"
proof (cases "parse_args (effective_argv argv)")
  case (Parsed args)
  with assms prompts_execute_command [of x cfg w args] show ?thesis
    by (cases "command args") (simp_all add: main_def)
next
  case HelpExit
  with assms prompts_no_command [of "effective_argv argv"] show ?thesis
    by (cases "no_command (effective_argv argv)") (simp add: main_def)
next
  case ErrorExit
  with assms prompts_no_command [of "effective_argv argv"] show ?thesis
    by (cases "no_command (effective_argv argv)") (simp add: main_def)
next
  case ParserRaised
  with assms show ?thesis by (simp add: main_def)
qed

lemma chat_prompt_differs: "chat_prompt q \<noteq> fix_prompt c e"
  by (simp add: chat_prompt_def fix_prompt_def lit_def)

lemma unknown_prompt_differs: "fix_prompt c (lit ''unknown'') \<noteq> fix_prompt c' (lit ''127'')"
  by (simp add: fix_prompt_def lit_def)

lemma length_fix_prompt: "length (fix_prompt c e) = length c + length e + 238"
  by (simp add: fix_prompt_def lit_def)

lemma internal_prompt_differs:
  "fix_prompt (lit ''--internal-fix-error'') e \<noteq> fix_prompt (lit ''gti status'') (lit ''127'')"
proof
  assume "fix_prompt (lit ''--internal-fix-error'') e = fix_prompt (lit ''gti status'') (lit ''127'')"
  then have "length (fix_prompt (lit ''--internal-fix-error'') e) =
             length (fix_prompt (lit ''gti status'') (lit ''127''))"
    by simp
  then show False by (simp add: length_fix_prompt lit_def)
qed

text \<open>
  C1, on the code. The hook runs \<open>--internal-fix-error --command "gti status" --exit_code 127\<close>.
  Whatever the argument parser makes of these arguments, whatever the configuration and
  the provider, no request of the run carries the prompt built from \<open>gti status\<close> and
  \<open>127\<close>: a prompt of \<open>main\<close> is a chat prompt, a manual fix prompt (exit code
  \<open>unknown\<close>), or the fix prompt for the text \<open>--internal-fix-error\<close>.
\<close>

theorem hook_prompt_never_sent:
  "fix_prompt (lit ''gti status'') (lit ''127'') \<notin>
     set (prompts (fst (main parse_args cfg w (hook_argv (lit ''gti status'') (lit ''127'')))))"
  using prompts_main [of "fix_prompt (lit ''gti status'') (lit ''127'')" parse_args cfg w
      "hook_argv (lit ''gti status'') (lit ''127'')"]
    chat_prompt_differs unknown_prompt_differs internal_prompt_differs
  by metis

text \<open>
  The reason: the hook branch is taken when \<open>args.command\<close> is the subcommand's name, and
  it passes that same attribute as the failed command.
\<close>

lemma hook_branch_passes_subcommand_name:
  assumes "command args = Some (lit ''--internal-fix-error'')" and "exit_code args = Some e"
  shows "execute_command cfg w args = handle_fix_error cfg w (lit ''--internal-fix-error'') e True"
  using assms by (simp add: execute_command_def lit_def)

end
